theory Spec2Isabelle
  imports Main "HOL-Library.Word"
begin

section \<open>The indicator LED driver (drivers/indicator\_led/indicator\_led.c)\<close>

text \<open>
  The driver lights one LED when two status inputs both read 1. It consists of
  \<^verbatim>\<open>update_led_state\<close>, two edge callbacks and \<^verbatim>\<open>indicator_led_init\<close>. Everything
  it does is a call into the GPIO layer or the logger, so the embedding threads a
  state holding the driver's data block and the sequence of calls made so far, and
  takes the GPIO layer as a parameter: each primitive answers as a function of the
  calls made before it, so that any sequence of answers can be supplied.
\<close>

subsection \<open>Types of the GPIO layer\<close>

text \<open>A C \<^verbatim>\<open>int\<close>: 32 bits, read as two's complement by \<open>sint\<close>.\<close>

type_synonym c_int = "32 word"

text \<open>\<^verbatim>\<open>ENODEV\<close> of errno.h.\<close>

definition ENODEV :: c_int where
  "ENODEV = 19"

datatype device = Device string

record gpio_dt_spec =
  port :: device
  pin :: "8 word"
  dt_flags :: "16 word"

datatype gpio_flags = GPIO_OUTPUT_INACTIVE | GPIO_INPUT | GPIO_INT_EDGE_BOTH

datatype log_level = LOG_ERR | LOG_INF | LOG_DBG

text \<open>The two handler functions, as the values a handler pointer can take.\<close>

datatype gpio_callback_handler = Handler_stat1 | Handler_stat2

record gpio_callback =
  handler :: "gpio_callback_handler option"
  pin_mask :: "32 word"

text \<open>The address of one of the two callback blocks inside the data block.\<close>

datatype callback_ref = Ref_stat1_cb | Ref_stat2_cb

text \<open>\<^verbatim>\<open>BIT(n)\<close> is \<^verbatim>\<open>1UL << n\<close>; pin numbers of a port are below its width.\<close>

definition BIT :: "8 word \<Rightarrow> 32 word" where
  "BIT n = push_bit (unat n) 1"

subsection \<open>The driver's structs\<close>

record indicator_led_config =
  led_gpio :: gpio_dt_spec
  stat1_gpio :: gpio_dt_spec
  stat2_gpio :: gpio_dt_spec

text \<open>
  \<^verbatim>\<open>config\<close> is a pointer to the constant configuration; it is modelled by the
  configuration it points to. Initialization stores it before anything else.
\<close>

record indicator_led_data =
  config :: indicator_led_config
  stat1_cb :: gpio_callback
  stat2_cb :: gpio_callback

subsection \<open>Calls, the platform and the state\<close>

text \<open>
  One event per call the driver makes, with the arguments of the call. A log call
  carries its severity, its format string and the values formatted into it.
\<close>

datatype event =
    Gpio_is_ready gpio_dt_spec
  | Gpio_pin_configure gpio_dt_spec gpio_flags
  | Gpio_pin_interrupt_configure gpio_dt_spec gpio_flags
  | Gpio_init_callback callback_ref gpio_callback_handler "32 word"
  | Gpio_add_callback device callback_ref
  | Gpio_pin_get gpio_dt_spec
  | Gpio_pin_set gpio_dt_spec c_int
  | Log log_level string "c_int list"

text \<open>
  The GPIO primitives whose result the driver obtains. The first argument of each
  is the list of calls made before this one.
\<close>

record platform =
  gpio_is_ready_dt :: "event list \<Rightarrow> gpio_dt_spec \<Rightarrow> bool"
  gpio_pin_configure_dt :: "event list \<Rightarrow> gpio_dt_spec \<Rightarrow> gpio_flags \<Rightarrow> c_int"
  gpio_pin_interrupt_configure_dt :: "event list \<Rightarrow> gpio_dt_spec \<Rightarrow> gpio_flags \<Rightarrow> c_int"
  gpio_pin_get_dt :: "event list \<Rightarrow> gpio_dt_spec \<Rightarrow> c_int"
  gpio_pin_set_dt :: "event list \<Rightarrow> gpio_dt_spec \<Rightarrow> c_int \<Rightarrow> c_int"

record driver_state =
  data :: indicator_led_data
  events :: "event list"

definition emit :: "event \<Rightarrow> driver_state \<Rightarrow> driver_state" where
  "emit e s = s\<lparr>events := events s @ [e]\<rparr>"

definition call_is_ready :: "platform \<Rightarrow> gpio_dt_spec \<Rightarrow> driver_state \<Rightarrow> bool \<times> driver_state" where
  "call_is_ready hw spec s =
     (gpio_is_ready_dt hw (events s) spec, emit (Gpio_is_ready spec) s)"

definition call_pin_configure ::
  "platform \<Rightarrow> gpio_dt_spec \<Rightarrow> gpio_flags \<Rightarrow> driver_state \<Rightarrow> c_int \<times> driver_state" where
  "call_pin_configure hw spec fl s =
     (gpio_pin_configure_dt hw (events s) spec fl, emit (Gpio_pin_configure spec fl) s)"

definition call_pin_interrupt_configure ::
  "platform \<Rightarrow> gpio_dt_spec \<Rightarrow> gpio_flags \<Rightarrow> driver_state \<Rightarrow> c_int \<times> driver_state" where
  "call_pin_interrupt_configure hw spec fl s =
     (gpio_pin_interrupt_configure_dt hw (events s) spec fl,
      emit (Gpio_pin_interrupt_configure spec fl) s)"

definition call_pin_get :: "platform \<Rightarrow> gpio_dt_spec \<Rightarrow> driver_state \<Rightarrow> c_int \<times> driver_state" where
  "call_pin_get hw spec s =
     (gpio_pin_get_dt hw (events s) spec, emit (Gpio_pin_get spec) s)"

definition call_pin_set ::
  "platform \<Rightarrow> gpio_dt_spec \<Rightarrow> c_int \<Rightarrow> driver_state \<Rightarrow> c_int \<times> driver_state" where
  "call_pin_set hw spec v s =
     (gpio_pin_set_dt hw (events s) spec v, emit (Gpio_pin_set spec v) s)"

text \<open>
  \<^verbatim>\<open>gpio_init_callback\<close> fills a callback block with its handler and pin mask;
  \<^verbatim>\<open>gpio_add_callback\<close> hands the block to the port. The driver discards what
  \<^verbatim>\<open>gpio_add_callback\<close> returns, so the model records the call only.
\<close>

definition set_cb :: "callback_ref \<Rightarrow> gpio_callback \<Rightarrow> indicator_led_data \<Rightarrow> indicator_led_data" where
  "set_cb r cb d = (case r of Ref_stat1_cb \<Rightarrow> d\<lparr>stat1_cb := cb\<rparr> | Ref_stat2_cb \<Rightarrow> d\<lparr>stat2_cb := cb\<rparr>)"

definition gpio_init_callback ::
  "callback_ref \<Rightarrow> gpio_callback_handler \<Rightarrow> 32 word \<Rightarrow> driver_state \<Rightarrow> driver_state" where
  "gpio_init_callback r h m s =
     emit (Gpio_init_callback r h m)
       (s\<lparr>data := set_cb r \<lparr>handler = Some h, pin_mask = m\<rparr> (data s)\<rparr>)"

definition gpio_add_callback :: "device \<Rightarrow> callback_ref \<Rightarrow> driver_state \<Rightarrow> driver_state" where
  "gpio_add_callback p r s = emit (Gpio_add_callback p r) s"

definition log_msg :: "log_level \<Rightarrow> string \<Rightarrow> c_int list \<Rightarrow> driver_state \<Rightarrow> driver_state" where
  "log_msg lvl fmt args s = emit (Log lvl fmt args) s"

subsection \<open>update\_led\_state (lines 30-45)\<close>

text \<open>
  Both pins are read before the test. The function is \<^verbatim>\<open>void\<close>: the model returns
  the state alone. The status of the write is bound and never used, as in the source.
\<close>

definition update_led_state :: "platform \<Rightarrow> indicator_led_config \<Rightarrow> driver_state \<Rightarrow> driver_state" where
  "update_led_state hw cfg s =
     (let (stat1, s1) = call_pin_get hw (stat1_gpio cfg) s;
          (stat2, s2) = call_pin_get hw (stat2_gpio cfg) s1
      in if sint stat1 < 0 \<or> sint stat2 < 0
         then log_msg LOG_ERR ''Failed to read STAT pins'' [] s2
         else
           let led_state = (if stat1 = 1 \<and> stat2 = 1 then 1 else 0);
               (unused, s3) = call_pin_set hw (led_gpio cfg) led_state s2
           in log_msg LOG_DBG ''STAT1=%d, STAT2=%d -> LED=%d'' [stat1, stat2, led_state] s3)"

subsection \<open>The edge callbacks (lines 47-57)\<close>

text \<open>
  A callback receives the address \<^verbatim>\<open>cb\<close> of a callback block.
  \<^verbatim>\<open>CONTAINER_OF(cb, struct indicator_led_data, m)\<close> subtracts the offset of the
  member \<^verbatim>\<open>m\<close> from that address. When \<^verbatim>\<open>cb\<close> is the address of the member
  \<^verbatim>\<open>m\<close> of the data block, the result is the data block. For the address of the
  other member the result is no data block and reading through it is undefined: the
  model has no value for it.
\<close>

definition CONTAINER_OF :: "callback_ref \<Rightarrow> callback_ref \<Rightarrow> driver_state \<Rightarrow> indicator_led_data option" where
  "CONTAINER_OF cb m s = (if cb = m then Some (data s) else None)"

text \<open>Neither \<^verbatim>\<open>port\<close> nor \<^verbatim>\<open>pins\<close> is read.\<close>

definition stat1_gpio_callback ::
  "platform \<Rightarrow> device \<Rightarrow> callback_ref \<Rightarrow> 32 word \<Rightarrow> driver_state \<Rightarrow> driver_state option" where
  "stat1_gpio_callback hw prt cb pins s =
     (case CONTAINER_OF cb Ref_stat1_cb s of
        None \<Rightarrow> None
      | Some dat \<Rightarrow> Some (update_led_state hw (config dat) s))"

definition stat2_gpio_callback ::
  "platform \<Rightarrow> device \<Rightarrow> callback_ref \<Rightarrow> 32 word \<Rightarrow> driver_state \<Rightarrow> driver_state option" where
  "stat2_gpio_callback hw prt cb pins s =
     (case CONTAINER_OF cb Ref_stat2_cb s of
        None \<Rightarrow> None
      | Some dat \<Rightarrow> Some (update_led_state hw (config dat) s))"

text \<open>
  How the port reaches a callback: on an edge it calls the handler stored in a
  registered callback block, passing the address of that block. A block without a
  handler cannot be called.
\<close>

definition call_handler ::
  "platform \<Rightarrow> gpio_callback_handler \<Rightarrow> device \<Rightarrow> callback_ref \<Rightarrow> 32 word \<Rightarrow> driver_state \<Rightarrow>
   driver_state option" where
  "call_handler hw h prt cb pins s =
     (case h of
        Handler_stat1 \<Rightarrow> stat1_gpio_callback hw prt cb pins s
      | Handler_stat2 \<Rightarrow> stat2_gpio_callback hw prt cb pins s)"

definition cb_block :: "callback_ref \<Rightarrow> indicator_led_data \<Rightarrow> gpio_callback" where
  "cb_block r d = (case r of Ref_stat1_cb \<Rightarrow> stat1_cb d | Ref_stat2_cb \<Rightarrow> stat2_cb d)"

definition fire_callback ::
  "platform \<Rightarrow> device \<Rightarrow> callback_ref \<Rightarrow> 32 word \<Rightarrow> driver_state \<Rightarrow> driver_state option" where
  "fire_callback hw prt r pins s =
     (case handler (cb_block r (data s)) of
        None \<Rightarrow> None
      | Some h \<Rightarrow> call_handler hw h prt r pins s)"

subsection \<open>indicator\_led\_init (lines 59-127)\<close>

definition indicator_led_init ::
  "platform \<Rightarrow> indicator_led_config \<Rightarrow> driver_state \<Rightarrow> c_int \<times> driver_state" where
  "indicator_led_init hw cfg s0 =
     (let s = s0\<lparr>data := (data s0)\<lparr>config := cfg\<rparr>\<rparr>;
          (ready, s) = call_is_ready hw (led_gpio cfg) s
      in if \<not> ready then (- ENODEV, log_msg LOG_ERR ''LED GPIO not ready'' [] s)
      else let (ret, s) = call_pin_configure hw (led_gpio cfg) GPIO_OUTPUT_INACTIVE s
      in if sint ret < 0 then (ret, log_msg LOG_ERR ''Failed to configure LED GPIO: %d'' [ret] s)
      else let (ready, s) = call_is_ready hw (stat1_gpio cfg) s
      in if \<not> ready then (- ENODEV, log_msg LOG_ERR ''STAT1 GPIO not ready'' [] s)
      else let (ret, s) = call_pin_configure hw (stat1_gpio cfg) GPIO_INPUT s
      in if sint ret < 0 then (ret, log_msg LOG_ERR ''Failed to configure STAT1 GPIO: %d'' [ret] s)
      else let (ret, s) = call_pin_interrupt_configure hw (stat1_gpio cfg) GPIO_INT_EDGE_BOTH s
      in if sint ret < 0 then (ret, log_msg LOG_ERR ''Failed to configure STAT1 interrupt: %d'' [ret] s)
      else let (ready, s) = call_is_ready hw (stat2_gpio cfg) s
      in if \<not> ready then (- ENODEV, log_msg LOG_ERR ''STAT2 GPIO not ready'' [] s)
      else let (ret, s) = call_pin_configure hw (stat2_gpio cfg) GPIO_INPUT s
      in if sint ret < 0 then (ret, log_msg LOG_ERR ''Failed to configure STAT2 GPIO: %d'' [ret] s)
      else let (ret, s) = call_pin_interrupt_configure hw (stat2_gpio cfg) GPIO_INT_EDGE_BOTH s
      in if sint ret < 0 then (ret, log_msg LOG_ERR ''Failed to configure STAT2 interrupt: %d'' [ret] s)
      else let s = gpio_init_callback Ref_stat1_cb Handler_stat1 (BIT (pin (stat1_gpio cfg))) s;
               s = gpio_add_callback (port (stat1_gpio cfg)) Ref_stat1_cb s;
               s = gpio_init_callback Ref_stat2_cb Handler_stat2 (BIT (pin (stat2_gpio cfg))) s;
               s = gpio_add_callback (port (stat2_gpio cfg)) Ref_stat2_cb s;
               s = update_led_state hw cfg s;
               s = log_msg LOG_INF ''Indicator LED initialized'' [] s
      in (0, s))"

subsection \<open>What was written to a pin\<close>

text \<open>
  The values handed to \<^verbatim>\<open>gpio_pin_set_dt\<close> for one pin, oldest first, and the level
  last requested for it (none before the first write).
\<close>

fun pin_writes :: "gpio_dt_spec \<Rightarrow> event list \<Rightarrow> c_int list" where
  "pin_writes spec [] = []"
| "pin_writes spec (Gpio_pin_set spec' v # es) =
     (if spec' = spec then v # pin_writes spec es else pin_writes spec es)"
| "pin_writes spec (e # es) = pin_writes spec es"

definition pin_output :: "gpio_dt_spec \<Rightarrow> event list \<Rightarrow> c_int option" where
  "pin_output spec es =
     (if pin_writes spec es = [] then None else Some (last (pin_writes spec es)))"

text \<open>The error-severity diagnostics among some calls.\<close>

fun is_error_log :: "event \<Rightarrow> bool" where
  "is_error_log (Log LOG_ERR fmt args) = True"
| "is_error_log e = False"

subsection \<open>The initialization sequence as the specification lists it\<close>

text \<open>
  The specification describes initialization as a list of checked steps run in order
  until the first one fails, followed by the registration of both callbacks, the
  startup re-evaluation and an informational diagnostic. The definitions below follow
  those words, with the pins, flags and messages of lines 68-113; they are a second
  description of initialization, proved equal to \<open>indicator_led_init\<close> in
  \<open>indicator_led_init_run_steps\<close>.

  A step is a readiness check, a pin configuration or an interrupt configuration,
  with the text of the diagnostic logged when it fails.
\<close>

datatype init_step =
    Check_ready gpio_dt_spec string
  | Configure_pin gpio_dt_spec gpio_flags string
  | Configure_interrupt gpio_dt_spec gpio_flags string

fun step_call :: "init_step \<Rightarrow> event" where
  "step_call (Check_ready spec msg) = Gpio_is_ready spec"
| "step_call (Configure_pin spec fl msg) = Gpio_pin_configure spec fl"
| "step_call (Configure_interrupt spec fl msg) = Gpio_pin_interrupt_configure spec fl"

text \<open>
  The status of a step made after the calls \<open>h\<close>: what the platform returns for a
  configuration call, and 0 or \<open>- ENODEV\<close> for a readiness check.
\<close>

fun step_status :: "platform \<Rightarrow> event list \<Rightarrow> init_step \<Rightarrow> c_int" where
  "step_status hw h (Check_ready spec msg) = (if gpio_is_ready_dt hw h spec then 0 else - ENODEV)"
| "step_status hw h (Configure_pin spec fl msg) = gpio_pin_configure_dt hw h spec fl"
| "step_status hw h (Configure_interrupt spec fl msg) = gpio_pin_interrupt_configure_dt hw h spec fl"

fun step_log :: "init_step \<Rightarrow> c_int \<Rightarrow> event" where
  "step_log (Check_ready spec msg) rc = Log LOG_ERR msg []"
| "step_log (Configure_pin spec fl msg) rc = Log LOG_ERR msg [rc]"
| "step_log (Configure_interrupt spec fl msg) rc = Log LOG_ERR msg [rc]"

definition init_steps :: "indicator_led_config \<Rightarrow> init_step list" where
  "init_steps cfg =
     [Check_ready (led_gpio cfg) ''LED GPIO not ready'',
      Configure_pin (led_gpio cfg) GPIO_OUTPUT_INACTIVE ''Failed to configure LED GPIO: %d'',
      Check_ready (stat1_gpio cfg) ''STAT1 GPIO not ready'',
      Configure_pin (stat1_gpio cfg) GPIO_INPUT ''Failed to configure STAT1 GPIO: %d'',
      Configure_interrupt (stat1_gpio cfg) GPIO_INT_EDGE_BOTH ''Failed to configure STAT1 interrupt: %d'',
      Check_ready (stat2_gpio cfg) ''STAT2 GPIO not ready'',
      Configure_pin (stat2_gpio cfg) GPIO_INPUT ''Failed to configure STAT2 GPIO: %d'',
      Configure_interrupt (stat2_gpio cfg) GPIO_INT_EDGE_BOTH ''Failed to configure STAT2 interrupt: %d'']"

text \<open>
  Running steps in order after the calls \<open>h\<close>: the failure code if a step failed,
  and the calls made.
\<close>

fun run_steps :: "platform \<Rightarrow> init_step list \<Rightarrow> event list \<Rightarrow> c_int option \<times> event list" where
  "run_steps hw [] h = (None, h)"
| "run_steps hw (st # sts) h =
     (let rc = step_status hw h st
      in if sint rc < 0 then (Some rc, h @ [step_call st, step_log st rc])
         else run_steps hw sts (h @ [step_call st]))"

text \<open>
  The calls made before step \<open>i\<close> when every earlier step succeeded, and the status
  step \<open>i\<close> then gets.
\<close>

definition step_history :: "event list \<Rightarrow> init_step list \<Rightarrow> nat \<Rightarrow> event list" where
  "step_history h sts i = h @ map step_call (take i sts)"

definition step_result :: "platform \<Rightarrow> event list \<Rightarrow> init_step list \<Rightarrow> nat \<Rightarrow> c_int" where
  "step_result hw h sts i = step_status hw (step_history h sts i) (sts ! i)"

text \<open>The four registration calls of lines 116-120.\<close>

definition registration_calls :: "indicator_led_config \<Rightarrow> event list" where
  "registration_calls cfg =
     [Gpio_init_callback Ref_stat1_cb Handler_stat1 (BIT (pin (stat1_gpio cfg))),
      Gpio_add_callback (port (stat1_gpio cfg)) Ref_stat1_cb,
      Gpio_init_callback Ref_stat2_cb Handler_stat2 (BIT (pin (stat2_gpio cfg))),
      Gpio_add_callback (port (stat2_gpio cfg)) Ref_stat2_cb]"

text \<open>
  The state once both callbacks are registered after the calls \<open>h\<close>: the
  configuration stored, both callback blocks filled, the registration calls made.
\<close>

definition registered :: "indicator_led_config \<Rightarrow> event list \<Rightarrow> driver_state \<Rightarrow> driver_state" where
  "registered cfg h s =
     s\<lparr>data := (data s)\<lparr>config := cfg,
          stat1_cb := \<lparr>handler = Some Handler_stat1, pin_mask = BIT (pin (stat1_gpio cfg))\<rparr>,
          stat2_cb := \<lparr>handler = Some Handler_stat2, pin_mask = BIT (pin (stat2_gpio cfg))\<rparr>\<rparr>,
       events := h @ registration_calls cfg\<rparr>"

text \<open>
  Claim C6 counts the startup re-evaluation among the steps of initialization. Read
  that way, the re-evaluation succeeds when both of its reads, made after the eight
  steps and the registration calls, are non-negative, and every step has succeeded
  when the eight steps and the re-evaluation have.
\<close>

definition startup_reads_ok :: "platform \<Rightarrow> indicator_led_config \<Rightarrow> driver_state \<Rightarrow> bool" where
  "startup_reads_ok hw cfg s =
     (let h = events s @ map step_call (init_steps cfg) @ registration_calls cfg
      in 0 \<le> sint (gpio_pin_get_dt hw h (stat1_gpio cfg))
         \<and> 0 \<le> sint (gpio_pin_get_dt hw (h @ [Gpio_pin_get (stat1_gpio cfg)]) (stat2_gpio cfg)))"

definition every_step_succeeded :: "platform \<Rightarrow> indicator_led_config \<Rightarrow> driver_state \<Rightarrow> bool" where
  "every_step_succeeded hw cfg s =
     (fst (run_steps hw (init_steps cfg) (events s)) = None \<and> startup_reads_ok hw cfg s)"

text \<open>
  The status the platform gives to a call that configures a pin or its interrupt,
  made after the calls \<open>h\<close>; no other call is a configuration call.
\<close>

fun configure_status :: "platform \<Rightarrow> event list \<Rightarrow> event \<Rightarrow> c_int option" where
  "configure_status hw h (Gpio_pin_configure spec fl) = Some (gpio_pin_configure_dt hw h spec fl)"
| "configure_status hw h (Gpio_pin_interrupt_configure spec fl) =
     Some (gpio_pin_interrupt_configure_dt hw h spec fl)"
| "configure_status hw h e = None"

subsection \<open>A board to run the driver on\<close>

text \<open>
  A platform whose answers do not depend on earlier calls: readiness per pin,
  configuration and interrupt-configuration status per pin, the level read from each
  pin and the status of every write.
\<close>

definition stateless_platform ::
  "(gpio_dt_spec \<Rightarrow> bool) \<Rightarrow> (gpio_dt_spec \<Rightarrow> c_int) \<Rightarrow> (gpio_dt_spec \<Rightarrow> c_int) \<Rightarrow>
   (gpio_dt_spec \<Rightarrow> c_int) \<Rightarrow> c_int \<Rightarrow> platform" where
  "stateless_platform r c i g w =
     \<lparr>gpio_is_ready_dt = (\<lambda>h. r),
      gpio_pin_configure_dt = (\<lambda>h spec fl. c spec),
      gpio_pin_interrupt_configure_dt = (\<lambda>h spec fl. i spec),
      gpio_pin_get_dt = (\<lambda>h. g),
      gpio_pin_set_dt = (\<lambda>h spec v. w)\<rparr>"

definition board_cfg :: indicator_led_config where
  "board_cfg =
     \<lparr>led_gpio = \<lparr>port = Device ''gpio0'', pin = 13, dt_flags = 0\<rparr>,
      stat1_gpio = \<lparr>port = Device ''gpio0'', pin = 4, dt_flags = 0\<rparr>,
      stat2_gpio = \<lparr>port = Device ''gpio1'', pin = 5, dt_flags = 0\<rparr>\<rparr>"

definition boot_state :: driver_state where
  "boot_state =
     \<lparr>data = \<lparr>config = board_cfg,
              stat1_cb = \<lparr>handler = None, pin_mask = 0\<rparr>,
              stat2_cb = \<lparr>handler = None, pin_mask = 0\<rparr>\<rparr>,
      events = []\<rparr>"

text \<open>The board with everything ready and configurable, reading the given levels.\<close>

definition good_board :: "c_int \<Rightarrow> c_int \<Rightarrow> c_int \<Rightarrow> platform" where
  "good_board l1 l2 w =
     stateless_platform (\<lambda>spec. True) (\<lambda>spec. 0) (\<lambda>spec. 0)
       (\<lambda>spec. if spec = stat1_gpio board_cfg then l1 else l2) w"

text \<open>The board with the LED pin's controller not ready.\<close>

definition led_unready_board :: platform where
  "led_unready_board =
     stateless_platform (\<lambda>spec. spec \<noteq> led_gpio board_cfg) (\<lambda>spec. 0) (\<lambda>spec. 0) (\<lambda>spec. 1) 0"

text \<open>The board that rejects the interrupt configuration of STAT2 with -22.\<close>

definition stat2_interrupt_board :: platform where
  "stat2_interrupt_board =
     stateless_platform (\<lambda>spec. True) (\<lambda>spec. 0)
       (\<lambda>spec. if spec = stat2_gpio board_cfg then - 22 else 0) (\<lambda>spec. 1) 0"

section \<open>Properties\<close>

lemma pin_writes_append: "pin_writes spec (es @ fs) = pin_writes spec es @ pin_writes spec fs"
  by (induction spec es rule: pin_writes.induct) simp_all

lemmas call_defs = call_pin_get_def call_pin_set_def call_is_ready_def call_pin_configure_def
  call_pin_interrupt_configure_def log_msg_def emit_def gpio_init_callback_def gpio_add_callback_def

subsection \<open>Running a list of steps\<close>

lemma run_steps_extends: "\<exists>new. snd (run_steps hw sts h) = h @ new"
proof (induction sts arbitrary: h)
  case Nil
  show ?case by simp
next
  case (Cons st sts)
  from Cons.IH [of "h @ [step_call st]"] obtain new
    where "snd (run_steps hw sts (h @ [step_call st])) = h @ step_call st # new"
    by auto
  then show ?case by (simp add: Let_def)
qed

lemma step_history_Cons:
  "step_history h (st # sts) (Suc i) = step_history (h @ [step_call st]) sts i"
  by (simp add: step_history_def)

lemma step_result_0: "step_result hw h (st # sts) 0 = step_status hw h st"
  by (simp add: step_result_def step_history_def)

lemma step_result_Suc:
  "step_result hw h (st # sts) (Suc i) = step_result hw (h @ [step_call st]) sts i"
  by (simp add: step_result_def step_history_def)

lemma run_steps_None_iff:
  "fst (run_steps hw sts h) = None \<longleftrightarrow> (\<forall>i<length sts. 0 \<le> sint (step_result hw h sts i))"
proof (induction sts arbitrary: h)
  case Nil
  show ?case by simp
next
  case (Cons st sts)
  show ?case
  proof (cases "sint (step_status hw h st) < 0")
    case True
    then have "\<not> 0 \<le> sint (step_result hw h (st # sts) 0)"
      by (simp add: step_result_0)
    then show ?thesis using True by (auto simp: Let_def)
  next
    case False
    have "(\<forall>i<length (st # sts). 0 \<le> sint (step_result hw h (st # sts) i)) \<longleftrightarrow>
          (\<forall>i<length sts. 0 \<le> sint (step_result hw (h @ [step_call st]) sts i))"
      using False by (simp add: All_less_Suc2 step_result_0 step_result_Suc)
    then show ?thesis using False Cons.IH [of "h @ [step_call st]"] by (simp add: Let_def)
  qed
qed

lemma run_steps_None_events:
  "fst (run_steps hw sts h) = None \<Longrightarrow> snd (run_steps hw sts h) = h @ map step_call sts"
  by (induction sts arbitrary: h) (auto simp: Let_def split: if_splits)

lemma run_steps_Some_negative:
  "fst (run_steps hw sts h) = Some rc \<Longrightarrow> sint rc < 0"
  by (induction sts arbitrary: h) (auto simp: Let_def split: if_splits)

lemma run_steps_first_failure:
  "i < length sts \<Longrightarrow> \<forall>j<i. 0 \<le> sint (step_result hw h sts j) \<Longrightarrow>
   sint (step_result hw h sts i) < 0 \<Longrightarrow>
   run_steps hw sts h =
     (Some (step_result hw h sts i),
      step_history h sts (Suc i) @ [step_log (sts ! i) (step_result hw h sts i)])"
proof (induction sts arbitrary: h i)
  case Nil
  then show ?case by simp
next
  case (Cons st sts)
  show ?case
  proof (cases i)
    case 0
    then show ?thesis using Cons.prems
      by (simp add: step_result_0 step_history_def Let_def)
  next
    case (Suc k)
    have ok: "0 \<le> sint (step_status hw h st)"
      using Cons.prems(2) Suc by (auto simp: step_result_0 dest: spec [of _ 0])
    have prev: "\<forall>j<k. 0 \<le> sint (step_result hw (h @ [step_call st]) sts j)"
      using Cons.prems(2) Suc by (auto simp: step_result_Suc dest: spec [of _ "Suc j" for j])
    have "run_steps hw sts (h @ [step_call st]) =
      (Some (step_result hw (h @ [step_call st]) sts k),
       step_history (h @ [step_call st]) sts (Suc k) @
         [step_log (sts ! k) (step_result hw (h @ [step_call st]) sts k)])"
      using Cons.prems Suc prev by (intro Cons.IH) (simp_all add: step_result_Suc)
    then show ?thesis using ok Suc
      by (simp add: Let_def step_result_Suc step_history_Cons)
  qed
qed

lemma run_steps_failure_index:
  "fst (run_steps hw sts h) = Some rc \<Longrightarrow>
   \<exists>i<length sts. (\<forall>j<i. 0 \<le> sint (step_result hw h sts j)) \<and> rc = step_result hw h sts i
      \<and> sint rc < 0"
proof (induction sts arbitrary: h)
  case Nil
  then show ?case by simp
next
  case (Cons st sts)
  show ?case
  proof (cases "sint (step_status hw h st) < 0")
    case True
    then have "rc = step_result hw h (st # sts) 0"
      using Cons.prems by (simp add: Let_def step_result_0)
    then show ?thesis using True by (intro exI [of _ 0]) (simp add: step_result_0)
  next
    case False
    then have "fst (run_steps hw sts (h @ [step_call st])) = Some rc"
      using Cons.prems by (simp add: Let_def)
    from Cons.IH [OF this] obtain i where i: "i < length sts"
      "\<forall>j<i. 0 \<le> sint (step_result hw (h @ [step_call st]) sts j)"
      "rc = step_result hw (h @ [step_call st]) sts i" "sint rc < 0"
      by blast
    have "\<forall>j<Suc i. 0 \<le> sint (step_result hw h (st # sts) j)"
      using False i(2) by (simp add: All_less_Suc2 step_result_0 step_result_Suc)
    then show ?thesis using i
      by (intro exI [of _ "Suc i"]) (simp add: step_result_Suc)
  qed
qed

subsection \<open>The re-evaluation and the initialization, call by call\<close>

lemma update_led_state_events:
  "events (update_led_state hw cfg s) =
     events s @ [Gpio_pin_get (stat1_gpio cfg), Gpio_pin_get (stat2_gpio cfg)] @
     (let stat1 = gpio_pin_get_dt hw (events s) (stat1_gpio cfg);
          stat2 = gpio_pin_get_dt hw (events s @ [Gpio_pin_get (stat1_gpio cfg)]) (stat2_gpio cfg)
      in if sint stat1 < 0 \<or> sint stat2 < 0 then [Log LOG_ERR ''Failed to read STAT pins'' []]
         else [Gpio_pin_set (led_gpio cfg) (if stat1 = 1 \<and> stat2 = 1 then 1 else 0),
               Log LOG_DBG ''STAT1=%d, STAT2=%d -> LED=%d''
                 [stat1, stat2, if stat1 = 1 \<and> stat2 = 1 then 1 else 0]])"
  by (simp add: update_led_state_def call_defs Let_def)

lemma update_led_state_data: "data (update_led_state hw cfg s) = data s"
  by (simp add: update_led_state_def call_defs Let_def)

lemma ENODEV_negative: "sint (- ENODEV) < 0"
  by (simp add: ENODEV_def)

lemma indicator_led_init_run_steps:
  "indicator_led_init hw cfg s =
     (case run_steps hw (init_steps cfg) (events s) of
        (Some rc, h) \<Rightarrow> (rc, s\<lparr>data := (data s)\<lparr>config := cfg\<rparr>, events := h\<rparr>)
      | (None, h) \<Rightarrow>
          (0, log_msg LOG_INF ''Indicator LED initialized'' []
                (update_led_state hw cfg (registered cfg h s))))"
  by (simp add: indicator_led_init_def init_steps_def registration_calls_def registered_def
        call_defs set_cb_def Let_def ENODEV_negative)

lemma configure_status_step_call:
  "configure_status hw h (step_call st) = Some rc \<Longrightarrow>
   rc = step_status hw h st \<and> (\<exists>fmt. step_log st rc = Log LOG_ERR fmt [rc])"
  by (cases st) auto

lemma configure_status_step_log: "configure_status hw h (step_log st rc) = None"
  by (cases st) simp_all

lemma run_steps_configure_failure:
  assumes "snd (run_steps hw sts h) = h @ pre @ c # post"
    and "configure_status hw (h @ pre) c = Some rc" and "sint rc < 0"
  shows "fst (run_steps hw sts h) = Some rc \<and> (\<exists>fmt. post = [Log LOG_ERR fmt [rc]])"
  using assms
proof (induction sts arbitrary: h pre)
  case Nil
  then show ?case by simp
next
  case (Cons st sts)
  show ?case
  proof (cases "sint (step_status hw h st) < 0")
    case True
    then have new: "pre @ c # post = [step_call st, step_log st (step_status hw h st)]"
      using Cons.prems(1) by (simp add: Let_def)
    show ?thesis
    proof (cases pre)
      case Nil
      then have c: "c = step_call st" "post = [step_log st (step_status hw h st)]"
        using new by simp_all
      with Cons.prems(2) Nil configure_status_step_call [of hw h st rc]
      show ?thesis using True by (auto simp: Let_def)
    next
      case (Cons p ps)
      then have "ps = [] \<and> c = step_log st (step_status hw h st)"
        using new by (cases ps) simp_all
      then show ?thesis using Cons.prems(2) by (simp add: configure_status_step_log)
    qed
  next
    case False
    obtain new where new: "snd (run_steps hw sts (h @ [step_call st])) = (h @ [step_call st]) @ new"
      using run_steps_extends by blast
    then have eq: "pre @ c # post = step_call st # new"
      using Cons.prems(1) False by (simp add: Let_def)
    show ?thesis
    proof (cases pre)
      case Nil
      then have "c = step_call st" using eq by simp
      with Cons.prems(2) Nil configure_status_step_call [of hw h st rc]
      have "rc = step_status hw h st" by simp
      then show ?thesis using False Cons.prems(3) by simp
    next
      case (Cons p ps)
      then have "p = step_call st" "new = ps @ c # post" using eq by simp_all
      then have "snd (run_steps hw sts (h @ [step_call st])) = (h @ [step_call st]) @ ps @ c # post"
        "configure_status hw ((h @ [step_call st]) @ ps) c = Some rc"
        using new Cons.prems(2) Cons by simp_all
      from Cons.IH [OF this Cons.prems(3)] show ?thesis using False by (simp add: Let_def)
    qed
  qed
qed

lemma pin_writes_step_calls: "pin_writes spec (map step_call sts) = []"
proof (induction sts)
  case Nil
  show ?case by simp
next
  case (Cons st sts)
  then show ?case by (cases st) simp_all
qed

lemma pin_writes_registration_calls: "pin_writes spec (registration_calls cfg) = []"
  by (simp add: registration_calls_def)

lemma registered_events: "events (registered cfg h s) = h @ registration_calls cfg"
  by (simp add: registered_def)

lemma init_success:
  assumes "fst (run_steps hw (init_steps cfg) (events s)) = None"
  shows "indicator_led_init hw cfg s =
     (0, log_msg LOG_INF ''Indicator LED initialized'' []
          (update_led_state hw cfg
             (registered cfg (events s @ map step_call (init_steps cfg)) s)))"
proof -
  have "run_steps hw (init_steps cfg) (events s) = (None, events s @ map step_call (init_steps cfg))"
    using assms run_steps_None_events [OF assms] by (simp add: prod_eq_iff)
  then show ?thesis by (simp add: indicator_led_init_run_steps)
qed

lemma init_failure:
  assumes "fst (run_steps hw (init_steps cfg) (events s)) = Some rc"
  shows "indicator_led_init hw cfg s =
     (rc, s\<lparr>data := (data s)\<lparr>config := cfg\<rparr>,
            events := snd (run_steps hw (init_steps cfg) (events s))\<rparr>)"
  using assms by (auto simp: indicator_led_init_run_steps split: prod.splits)

lemma init_zero_iff:
  "fst (indicator_led_init hw cfg s) = 0 \<longleftrightarrow> fst (run_steps hw (init_steps cfg) (events s)) = None"
proof (cases "fst (run_steps hw (init_steps cfg) (events s))")
  case None
  then show ?thesis by (simp add: init_success)
next
  case (Some rc)
  then have "sint rc < 0" by (rule run_steps_Some_negative)
  then have "rc \<noteq> 0" by auto
  then show ?thesis using Some by (simp add: init_failure)
qed

lemma init_success_events:
  assumes "fst (indicator_led_init hw cfg s) = 0"
  shows "events (snd (indicator_led_init hw cfg s)) =
     events (update_led_state hw cfg
       (s\<lparr>events := events s @ map step_call (init_steps cfg) @ registration_calls cfg\<rparr>)) @
     [Log LOG_INF ''Indicator LED initialized'' []]"
proof -
  have "fst (run_steps hw (init_steps cfg) (events s)) = None"
    using assms by (simp add: init_zero_iff)
  then show ?thesis
    by (simp add: init_success log_msg_def emit_def update_led_state_events registered_events)
qed

lemma configure_status_tail:
  assumes "c \<in> set (drop (length (events s) + length (init_steps cfg))
             (events (snd (indicator_led_init hw cfg s))))"
    and "fst (indicator_led_init hw cfg s) = 0"
  shows "configure_status hw h c = None"
  using assms
  by (auto simp: init_success_events update_led_state_events registration_calls_def Let_def
        split: if_splits)

lemma init_success_data:
  assumes "fst (indicator_led_init hw cfg s) = 0"
  shows "data (snd (indicator_led_init hw cfg s)) =
     (data s)\<lparr>config := cfg,
        stat1_cb := \<lparr>handler = Some Handler_stat1, pin_mask = BIT (pin (stat1_gpio cfg))\<rparr>,
        stat2_cb := \<lparr>handler = Some Handler_stat2, pin_mask = BIT (pin (stat2_gpio cfg))\<rparr>\<rparr>"
proof -
  have "fst (run_steps hw (init_steps cfg) (events s)) = None"
    using assms by (simp add: init_zero_iff)
  then show ?thesis
    by (simp add: init_success log_msg_def emit_def update_led_state_data registered_def)
qed

subsection \<open>Unfolding the model on a concrete board\<close>

lemmas board_defs = good_board_def stateless_platform_def board_cfg_def boot_state_def

lemmas init_eval = indicator_led_init_def update_led_state_def call_defs set_cb_def Let_def
  stat2_interrupt_board_def board_defs

section \<open>The claims\<close>

text \<open>
  Claim C1. When both reads are non-negative, \<open>update_led_state\<close> makes exactly four
  calls: the two reads, one write to the LED pin and the debug diagnostic. The value
  written is 1 when both reads are 1 and 0 otherwise, also for a positive read other
  than 1, so the LED pin gets exactly one more write, and that value is its output.
\<close>

theorem update_led_state_and:
  assumes "stat1 = gpio_pin_get_dt hw (events s) (stat1_gpio cfg)"
    and "stat2 = gpio_pin_get_dt hw (events s @ [Gpio_pin_get (stat1_gpio cfg)]) (stat2_gpio cfg)"
    and "0 \<le> sint stat1" and "0 \<le> sint stat2"
  shows "events (update_led_state hw cfg s) =
           events s @
           [Gpio_pin_get (stat1_gpio cfg), Gpio_pin_get (stat2_gpio cfg),
            Gpio_pin_set (led_gpio cfg) (if stat1 = 1 \<and> stat2 = 1 then 1 else 0),
            Log LOG_DBG ''STAT1=%d, STAT2=%d -> LED=%d''
              [stat1, stat2, if stat1 = 1 \<and> stat2 = 1 then 1 else 0]]
       \<and> pin_writes (led_gpio cfg) (events (update_led_state hw cfg s)) =
           pin_writes (led_gpio cfg) (events s) @ [if stat1 = 1 \<and> stat2 = 1 then 1 else 0]
       \<and> pin_output (led_gpio cfg) (events (update_led_state hw cfg s)) =
           Some (if stat1 = 1 \<and> stat2 = 1 then 1 else 0)"
  using assms
  by (simp add: update_led_state_events pin_writes_append pin_output_def Let_def)

theorem update_led_state_and_witness:
  "pin_writes (led_gpio board_cfg)
     (events (update_led_state (good_board 2 1 0) board_cfg boot_state)) = [0]
   \<and> pin_writes (led_gpio board_cfg)
     (events (update_led_state (good_board 1 1 0) board_cfg boot_state)) = [1]"
  using update_led_state_and [of 2 "good_board 2 1 0" boot_state board_cfg 1]
    update_led_state_and [of 1 "good_board 1 1 0" boot_state board_cfg 1]
  by (simp add: board_defs)

text \<open>
  Claim C2. When the STAT1 read or the STAT2 read is negative, \<open>update_led_state\<close>
  makes the two reads and emits one error-severity diagnostic, and nothing else: no
  pin is written, so the output of every pin is what it was, and the data block is
  untouched. The function returns nothing (it is \<^verbatim>\<open>void\<close>), so the state is all
  the caller gets back.
\<close>

theorem update_led_state_read_error:
  assumes "stat1 = gpio_pin_get_dt hw (events s) (stat1_gpio cfg)"
    and "stat2 = gpio_pin_get_dt hw (events s @ [Gpio_pin_get (stat1_gpio cfg)]) (stat2_gpio cfg)"
    and "sint stat1 < 0 \<or> sint stat2 < 0"
  shows "events (update_led_state hw cfg s) =
           events s @
           [Gpio_pin_get (stat1_gpio cfg), Gpio_pin_get (stat2_gpio cfg),
            Log LOG_ERR ''Failed to read STAT pins'' []]
       \<and> pin_writes spec (events (update_led_state hw cfg s)) = pin_writes spec (events s)
       \<and> pin_output spec (events (update_led_state hw cfg s)) = pin_output spec (events s)
       \<and> data (update_led_state hw cfg s) = data s"
  using assms
  by (auto simp: update_led_state_events update_led_state_data pin_writes_append pin_output_def
        Let_def)

theorem update_led_state_read_error_witness:
  "events (update_led_state (good_board 1 (- 5) 0) board_cfg boot_state) =
     [Gpio_pin_get (stat1_gpio board_cfg), Gpio_pin_get (stat2_gpio board_cfg),
      Log LOG_ERR ''Failed to read STAT pins'' []]"
  using update_led_state_read_error [of 1 "good_board 1 (- 5) 0" boot_state board_cfg "- 5"]
  by (simp add: board_defs)

text \<open>
  Claim C3. Suppose initialization returns 0 and the two reads of its startup
  re-evaluation, made after the eight steps and the four registration calls, both
  give 1. Then initialization itself writes 1 to the LED pin: its calls are the eight
  steps, the registration of both callbacks, and then the reads, the write of 1 and
  the two diagnostics; no callback has run. The LED output on return is 1.
\<close>

theorem init_startup_sync:
  assumes "fst (indicator_led_init hw cfg s) = 0"
    and "gpio_pin_get_dt hw
           (events s @ map step_call (init_steps cfg) @ registration_calls cfg)
           (stat1_gpio cfg) = 1"
    and "gpio_pin_get_dt hw
           (events s @ map step_call (init_steps cfg) @ registration_calls cfg @
              [Gpio_pin_get (stat1_gpio cfg)])
           (stat2_gpio cfg) = 1"
  shows "events (snd (indicator_led_init hw cfg s)) =
           events s @ map step_call (init_steps cfg) @ registration_calls cfg @
           [Gpio_pin_get (stat1_gpio cfg), Gpio_pin_get (stat2_gpio cfg),
            Gpio_pin_set (led_gpio cfg) 1,
            Log LOG_DBG ''STAT1=%d, STAT2=%d -> LED=%d'' [1, 1, 1],
            Log LOG_INF ''Indicator LED initialized'' []]
       \<and> pin_output (led_gpio cfg) (events (snd (indicator_led_init hw cfg s))) = Some 1"
proof -
  have ev: "events (snd (indicator_led_init hw cfg s)) =
      events s @ map step_call (init_steps cfg) @ registration_calls cfg @
      [Gpio_pin_get (stat1_gpio cfg), Gpio_pin_get (stat2_gpio cfg),
       Gpio_pin_set (led_gpio cfg) 1,
       Log LOG_DBG ''STAT1=%d, STAT2=%d -> LED=%d'' [1, 1, 1],
       Log LOG_INF ''Indicator LED initialized'' []]"
    using assms by (simp add: init_success_events update_led_state_events)
  show ?thesis unfolding ev
    by (simp add: pin_output_def pin_writes_append)
qed

theorem init_startup_sync_witness:
  "fst (indicator_led_init (good_board 1 1 0) board_cfg boot_state) = 0
   \<and> pin_output (led_gpio board_cfg)
       (events (snd (indicator_led_init (good_board 1 1 0) board_cfg boot_state))) = Some 1"
proof -
  have zero: "fst (indicator_led_init (good_board 1 1 0) board_cfg boot_state) = 0"
    by (simp add: init_eval)
  have r1: "gpio_pin_get_dt (good_board 1 1 0)
      (events boot_state @ map step_call (init_steps board_cfg) @ registration_calls board_cfg)
      (stat1_gpio board_cfg) = 1"
    by (simp add: good_board_def stateless_platform_def)
  have r2: "gpio_pin_get_dt (good_board 1 1 0)
      (events boot_state @ map step_call (init_steps board_cfg) @ registration_calls board_cfg @
         [Gpio_pin_get (stat1_gpio board_cfg)])
      (stat2_gpio board_cfg) = 1"
    by (simp add: good_board_def stateless_platform_def)
  from init_startup_sync [OF zero r1 r2] zero show ?thesis by blast
qed

text \<open>
  Claim C4. When the LED pin's controller is not ready, \<open>indicator_led_init\<close> returns
  \<open>- ENODEV\<close> (that is, -19) after two calls only: the readiness check and the error
  diagnostic. No pin is configured, no interrupt is configured, no callback is
  registered and no pin is written.
\<close>

theorem init_led_not_ready:
  assumes "\<not> gpio_is_ready_dt hw (events s) (led_gpio cfg)"
  shows "fst (indicator_led_init hw cfg s) = - ENODEV
       \<and> sint (fst (indicator_led_init hw cfg s)) = - 19
       \<and> events (snd (indicator_led_init hw cfg s)) =
           events s @ [Gpio_is_ready (led_gpio cfg), Log LOG_ERR ''LED GPIO not ready'' []]"
  using assms by (simp add: indicator_led_init_def call_defs Let_def ENODEV_def)

theorem init_led_not_ready_witness:
  "fst (indicator_led_init led_unready_board board_cfg boot_state) = - 19
   \<and> events (snd (indicator_led_init led_unready_board board_cfg boot_state)) =
       [Gpio_is_ready (led_gpio board_cfg), Log LOG_ERR ''LED GPIO not ready'' []]"
  using init_led_not_ready [of led_unready_board boot_state board_cfg]
  by (simp add: led_unready_board_def board_defs ENODEV_def)

text \<open>
  Claim C5. Take any call \<open>c\<close> that initialization makes, after the calls \<open>pre\<close>
  and before the calls \<open>post\<close>. If \<open>c\<close> configures a pin or its interrupt and the
  platform answers it with a negative status, then initialization returns exactly that
  status, and the only call after \<open>c\<close> is an error diagnostic carrying the status:
  no later step is performed.
\<close>

theorem init_configure_failure:
  assumes "events (snd (indicator_led_init hw cfg s)) = events s @ pre @ c # post"
    and "configure_status hw (events s @ pre) c = Some rc"
    and "sint rc < 0"
  shows "fst (indicator_led_init hw cfg s) = rc \<and> (\<exists>fmt. post = [Log LOG_ERR fmt [rc]])"
proof (cases "fst (run_steps hw (init_steps cfg) (events s))")
  case (Some r)
  then have "snd (run_steps hw (init_steps cfg) (events s)) = events s @ pre @ c # post"
    using assms(1) by (simp add: init_failure)
  from run_steps_configure_failure [OF this assms(2,3)] Some show ?thesis
    by (simp add: init_failure)
next
  case None
  then have zero: "fst (indicator_led_init hw cfg s) = 0"
    by (simp add: init_zero_iff)
  let ?A = "map step_call (init_steps cfg)"
  obtain B where B: "events (snd (indicator_led_init hw cfg s)) = events s @ ?A @ B"
    by (simp add: init_success_events [OF zero] update_led_state_events)
  have tail: "configure_status hw h e = None" if "e \<in> set B" for e h
    using that configure_status_tail [OF _ zero, of e h] by (simp add: B)
  from B assms(1) have "?A @ B = pre @ c # post" by simp
  then obtain us where "(?A = pre @ us \<and> us @ B = c # post) \<or> (?A @ us = pre \<and> B = us @ c # post)"
    by (auto simp: append_eq_append_conv2)
  then consider (inA) us' where "?A = pre @ c # us'" | (inB) "c \<in> set B"
    by (cases us) auto
  then show ?thesis
  proof cases
    case inA
    then have "snd (run_steps hw (init_steps cfg) (events s)) = events s @ pre @ c # us'"
      using run_steps_None_events [OF None] by simp
    from run_steps_configure_failure [OF this assms(2,3)] None show ?thesis by simp
  next
    case inB
    then show ?thesis using tail assms(2) by simp
  qed
qed

theorem init_configure_failure_witness:
  "fst (indicator_led_init stat2_interrupt_board board_cfg boot_state) = - 22
   \<and> events (snd (indicator_led_init stat2_interrupt_board board_cfg boot_state)) =
       [Gpio_is_ready (led_gpio board_cfg),
        Gpio_pin_configure (led_gpio board_cfg) GPIO_OUTPUT_INACTIVE,
        Gpio_is_ready (stat1_gpio board_cfg),
        Gpio_pin_configure (stat1_gpio board_cfg) GPIO_INPUT,
        Gpio_pin_interrupt_configure (stat1_gpio board_cfg) GPIO_INT_EDGE_BOTH,
        Gpio_is_ready (stat2_gpio board_cfg),
        Gpio_pin_configure (stat2_gpio board_cfg) GPIO_INPUT,
        Gpio_pin_interrupt_configure (stat2_gpio board_cfg) GPIO_INT_EDGE_BOTH,
        Log LOG_ERR ''Failed to configure STAT2 interrupt: %d'' [- 22]]"
proof -
  have ev: "events (snd (indicator_led_init stat2_interrupt_board board_cfg boot_state)) =
      events boot_state @
      [Gpio_is_ready (led_gpio board_cfg),
       Gpio_pin_configure (led_gpio board_cfg) GPIO_OUTPUT_INACTIVE,
       Gpio_is_ready (stat1_gpio board_cfg),
       Gpio_pin_configure (stat1_gpio board_cfg) GPIO_INPUT,
       Gpio_pin_interrupt_configure (stat1_gpio board_cfg) GPIO_INT_EDGE_BOTH,
       Gpio_is_ready (stat2_gpio board_cfg),
       Gpio_pin_configure (stat2_gpio board_cfg) GPIO_INPUT] @
      Gpio_pin_interrupt_configure (stat2_gpio board_cfg) GPIO_INT_EDGE_BOTH #
      [Log LOG_ERR ''Failed to configure STAT2 interrupt: %d'' [- 22]]"
    by (simp add: init_eval)
  have st: "configure_status stat2_interrupt_board
      (events boot_state @
        [Gpio_is_ready (led_gpio board_cfg),
         Gpio_pin_configure (led_gpio board_cfg) GPIO_OUTPUT_INACTIVE,
         Gpio_is_ready (stat1_gpio board_cfg),
         Gpio_pin_configure (stat1_gpio board_cfg) GPIO_INPUT,
         Gpio_pin_interrupt_configure (stat1_gpio board_cfg) GPIO_INT_EDGE_BOTH,
         Gpio_is_ready (stat2_gpio board_cfg),
         Gpio_pin_configure (stat2_gpio board_cfg) GPIO_INPUT])
      (Gpio_pin_interrupt_configure (stat2_gpio board_cfg) GPIO_INT_EDGE_BOTH) = Some (- 22)"
    by (simp add: stat2_interrupt_board_def board_defs)
  have neg: "sint (- 22 :: c_int) < 0" by simp
  from init_configure_failure [OF ev st neg] ev show ?thesis
    by (simp add: boot_state_def)
qed

text \<open>
  Claim C6, amended. The steps whose outcome decides the result are the eight of
  \<open>init_steps\<close>, in this order: readiness and output configuration of the LED,
  then readiness, input and interrupt configuration of STAT1, then the same for
  STAT2. Initialization returns 0 exactly when each of the eight succeeds; the startup
  re-evaluation is \<^verbatim>\<open>void\<close> and a read error in it does not change the result.
  When initialization does not return 0, some step \<open>i\<close> is the first to fail: the
  steps before it succeeded, the result is the status of step \<open>i\<close>, the calls made
  are those of the steps up to \<open>i\<close> followed by one error-severity diagnostic, which
  comes last. When it returns 0, the calls are those of the eight steps, the
  registration calls, the startup re-evaluation and the informational diagnostic, in
  this order.
\<close>

theorem init_first_failure:
  "(fst (indicator_led_init hw cfg s) = 0 \<longleftrightarrow>
      (\<forall>i<length (init_steps cfg). 0 \<le> sint (step_result hw (events s) (init_steps cfg) i)))
   \<and> (fst (indicator_led_init hw cfg s) \<noteq> 0 \<longrightarrow>
        (\<exists>i<length (init_steps cfg).
            (\<forall>j<i. 0 \<le> sint (step_result hw (events s) (init_steps cfg) j))
          \<and> sint (step_result hw (events s) (init_steps cfg) i) < 0
          \<and> fst (indicator_led_init hw cfg s) = step_result hw (events s) (init_steps cfg) i
          \<and> events (snd (indicator_led_init hw cfg s)) =
              step_history (events s) (init_steps cfg) (Suc i) @
              [step_log (init_steps cfg ! i) (step_result hw (events s) (init_steps cfg) i)]
          \<and> is_error_log (last (events (snd (indicator_led_init hw cfg s))))))
   \<and> (fst (indicator_led_init hw cfg s) = 0 \<longrightarrow>
        events (snd (indicator_led_init hw cfg s)) =
          events (update_led_state hw cfg
            (s\<lparr>events := events s @ map step_call (init_steps cfg) @ registration_calls cfg\<rparr>)) @
          [Log LOG_INF ''Indicator LED initialized'' []])"
proof (intro conjI impI)
  show "fst (indicator_led_init hw cfg s) = 0 \<longleftrightarrow>
      (\<forall>i<length (init_steps cfg). 0 \<le> sint (step_result hw (events s) (init_steps cfg) i))"
    by (simp add: init_zero_iff run_steps_None_iff)
next
  assume nz: "fst (indicator_led_init hw cfg s) \<noteq> 0"
  then obtain rc where rc: "fst (run_steps hw (init_steps cfg) (events s)) = Some rc"
    by (auto simp: init_zero_iff)
  from run_steps_failure_index [OF rc] obtain i where i: "i < length (init_steps cfg)"
    "\<forall>j<i. 0 \<le> sint (step_result hw (events s) (init_steps cfg) j)"
    "rc = step_result hw (events s) (init_steps cfg) i" "sint rc < 0"
    by blast
  have run: "run_steps hw (init_steps cfg) (events s) =
      (Some rc, step_history (events s) (init_steps cfg) (Suc i) @
         [step_log (init_steps cfg ! i) rc])"
    using run_steps_first_failure [OF i(1,2)] i(3,4) by simp
  have "is_error_log (step_log st r)" for st r
    by (cases st) simp_all
  then show "\<exists>i<length (init_steps cfg).
      (\<forall>j<i. 0 \<le> sint (step_result hw (events s) (init_steps cfg) j))
    \<and> sint (step_result hw (events s) (init_steps cfg) i) < 0
    \<and> fst (indicator_led_init hw cfg s) = step_result hw (events s) (init_steps cfg) i
    \<and> events (snd (indicator_led_init hw cfg s)) =
        step_history (events s) (init_steps cfg) (Suc i) @
        [step_log (init_steps cfg ! i) (step_result hw (events s) (init_steps cfg) i)]
    \<and> is_error_log (last (events (snd (indicator_led_init hw cfg s))))"
    using i run rc by (intro exI [of _ i]) (simp add: init_failure)
next
  assume "fst (indicator_led_init hw cfg s) = 0"
  then show "events (snd (indicator_led_init hw cfg s)) =
      events (update_led_state hw cfg
        (s\<lparr>events := events s @ map step_call (init_steps cfg) @ registration_calls cfg\<rparr>)) @
      [Log LOG_INF ''Indicator LED initialized'' []]"
    by (rule init_success_events)
qed

theorem init_first_failure_witness:
  "fst (indicator_led_init (good_board 1 0 0) board_cfg boot_state) = 0
   \<and> events (snd (indicator_led_init (good_board 1 0 0) board_cfg boot_state)) =
       [Gpio_is_ready (led_gpio board_cfg),
        Gpio_pin_configure (led_gpio board_cfg) GPIO_OUTPUT_INACTIVE,
        Gpio_is_ready (stat1_gpio board_cfg),
        Gpio_pin_configure (stat1_gpio board_cfg) GPIO_INPUT,
        Gpio_pin_interrupt_configure (stat1_gpio board_cfg) GPIO_INT_EDGE_BOTH,
        Gpio_is_ready (stat2_gpio board_cfg),
        Gpio_pin_configure (stat2_gpio board_cfg) GPIO_INPUT,
        Gpio_pin_interrupt_configure (stat2_gpio board_cfg) GPIO_INT_EDGE_BOTH,
        Gpio_init_callback Ref_stat1_cb Handler_stat1 16,
        Gpio_add_callback (Device ''gpio0'') Ref_stat1_cb,
        Gpio_init_callback Ref_stat2_cb Handler_stat2 32,
        Gpio_add_callback (Device ''gpio1'') Ref_stat2_cb,
        Gpio_pin_get (stat1_gpio board_cfg),
        Gpio_pin_get (stat2_gpio board_cfg),
        Gpio_pin_set (led_gpio board_cfg) 0,
        Log LOG_DBG ''STAT1=%d, STAT2=%d -> LED=%d'' [1, 0, 0],
        Log LOG_INF ''Indicator LED initialized'' []]
   \<and> fst (indicator_led_init stat2_interrupt_board board_cfg boot_state) = - 22
   \<and> is_error_log (last (events (snd (indicator_led_init stat2_interrupt_board board_cfg boot_state))))"
proof -
  have ok: "\<forall>i<length (init_steps board_cfg).
      0 \<le> sint (step_result (good_board 1 0 0) (events boot_state) (init_steps board_cfg) i)"
    by (simp add: init_steps_def All_less_Suc2 step_result_0 step_result_Suc board_defs)
  have zero: "fst (indicator_led_init (good_board 1 0 0) board_cfg boot_state) = 0"
    using init_first_failure [of "good_board 1 0 0" board_cfg boot_state] ok by blast
  then have ev: "events (snd (indicator_led_init (good_board 1 0 0) board_cfg boot_state)) =
      events (update_led_state (good_board 1 0 0) board_cfg
        (boot_state\<lparr>events := events boot_state @ map step_call (init_steps board_cfg) @
           registration_calls board_cfg\<rparr>)) @
      [Log LOG_INF ''Indicator LED initialized'' []]"
    using init_first_failure [of "good_board 1 0 0" board_cfg boot_state] by blast
  have bad: "fst (indicator_led_init stat2_interrupt_board board_cfg boot_state) = - 22"
    by (simp add: init_eval)
  then have "fst (indicator_led_init stat2_interrupt_board board_cfg boot_state) \<noteq> 0"
    by simp
  then have err: "is_error_log
      (last (events (snd (indicator_led_init stat2_interrupt_board board_cfg boot_state))))"
    using init_first_failure [of stat2_interrupt_board board_cfg boot_state] by blast
  have "events (update_led_state (good_board 1 0 0) board_cfg
        (boot_state\<lparr>events := events boot_state @ map step_call (init_steps board_cfg) @
           registration_calls board_cfg\<rparr>)) @
      [Log LOG_INF ''Indicator LED initialized'' []] =
      [Gpio_is_ready (led_gpio board_cfg),
       Gpio_pin_configure (led_gpio board_cfg) GPIO_OUTPUT_INACTIVE,
       Gpio_is_ready (stat1_gpio board_cfg),
       Gpio_pin_configure (stat1_gpio board_cfg) GPIO_INPUT,
       Gpio_pin_interrupt_configure (stat1_gpio board_cfg) GPIO_INT_EDGE_BOTH,
       Gpio_is_ready (stat2_gpio board_cfg),
       Gpio_pin_configure (stat2_gpio board_cfg) GPIO_INPUT,
       Gpio_pin_interrupt_configure (stat2_gpio board_cfg) GPIO_INT_EDGE_BOTH,
       Gpio_init_callback Ref_stat1_cb Handler_stat1 16,
       Gpio_add_callback (Device ''gpio0'') Ref_stat1_cb,
       Gpio_init_callback Ref_stat2_cb Handler_stat2 32,
       Gpio_add_callback (Device ''gpio1'') Ref_stat2_cb,
       Gpio_pin_get (stat1_gpio board_cfg),
       Gpio_pin_get (stat2_gpio board_cfg),
       Gpio_pin_set (led_gpio board_cfg) 0,
       Log LOG_DBG ''STAT1=%d, STAT2=%d -> LED=%d'' [1, 0, 0],
       Log LOG_INF ''Indicator LED initialized'' []]"
    by (simp add: update_led_state_events init_steps_def registration_calls_def BIT_def
          board_defs)
  with ev zero bad err show ?thesis by simp
qed

text \<open>
  Claim C6 as worded counts the startup re-evaluation among the steps and says that
  initialization returns 0 only if every step succeeded. On the board whose STAT1
  pin reads -5, everything configures, the startup re-evaluation logs its read error
  and writes no pin, and initialization returns 0 all the same.
\<close>

theorem init_every_step_counterexample:
  "fst (indicator_led_init (good_board (- 5) 1 0) board_cfg boot_state) = 0
   \<and> \<not> every_step_succeeded (good_board (- 5) 1 0) board_cfg boot_state"
  by (simp add: init_eval every_step_succeeded_def startup_reads_ok_def)

text \<open>
  Claim C7. With the same two levels read in the second run as in the first, running
  \<open>update_led_state\<close> twice leaves the output of every pin and the data block as one
  run leaves them; the second run makes the calls of the first again (the reads, the
  same write if there was one, the same diagnostic) and no other.
\<close>

theorem update_led_state_idempotent:
  assumes "gpio_pin_get_dt hw (events (update_led_state hw cfg s)) (stat1_gpio cfg) =
           gpio_pin_get_dt hw (events s) (stat1_gpio cfg)"
    and "gpio_pin_get_dt hw (events (update_led_state hw cfg s) @ [Gpio_pin_get (stat1_gpio cfg)])
           (stat2_gpio cfg) =
         gpio_pin_get_dt hw (events s @ [Gpio_pin_get (stat1_gpio cfg)]) (stat2_gpio cfg)"
  shows "pin_output spec (events (update_led_state hw cfg (update_led_state hw cfg s))) =
           pin_output spec (events (update_led_state hw cfg s))
       \<and> data (update_led_state hw cfg (update_led_state hw cfg s)) =
           data (update_led_state hw cfg s)
       \<and> events (update_led_state hw cfg (update_led_state hw cfg s)) =
           events (update_led_state hw cfg s) @
           drop (length (events s)) (events (update_led_state hw cfg s))"
proof -
  let ?once = "update_led_state hw cfg s"
  obtain new where once: "events ?once = events s @ new"
    by (simp add: update_led_state_events)
  have twice: "events (update_led_state hw cfg ?once) = events ?once @ new"
    using once assms by (simp add: update_led_state_events [of hw cfg ?once])
      (simp add: update_led_state_events)
  have "pin_output spec (events ?once @ new) = pin_output spec (events ?once)"
    by (simp add: once pin_output_def pin_writes_append last_append)
  then show ?thesis using once twice by (simp add: update_led_state_data)
qed

theorem update_led_state_idempotent_witness:
  "events (update_led_state (good_board 1 1 0) board_cfg
      (update_led_state (good_board 1 1 0) board_cfg boot_state)) =
     events (update_led_state (good_board 1 1 0) board_cfg boot_state) @
     events (update_led_state (good_board 1 1 0) board_cfg boot_state)
   \<and> pin_output (led_gpio board_cfg) (events (update_led_state (good_board 1 1 0) board_cfg
      (update_led_state (good_board 1 1 0) board_cfg boot_state))) = Some 1"
  using update_led_state_idempotent [of "good_board 1 1 0" board_cfg boot_state "led_gpio board_cfg"]
  by (simp add: board_defs update_led_state_events pin_output_def)

text \<open>
  Claim C8. Whatever \<^verbatim>\<open>gpio_pin_set_dt\<close> returns, \<open>update_led_state\<close> ends in the same
  state: once the write is reached (both reads non-negative), the debug diagnostic
  follows it, the function returns, and no error diagnostic is added.
\<close>

theorem update_led_state_ignores_write_status:
  assumes "0 \<le> sint (gpio_pin_get_dt hw (events s) (stat1_gpio cfg))"
    and "0 \<le> sint (gpio_pin_get_dt hw (events s @ [Gpio_pin_get (stat1_gpio cfg)]) (stat2_gpio cfg))"
  shows "update_led_state (hw\<lparr>gpio_pin_set_dt := w\<rparr>) cfg s = update_led_state hw cfg s
       \<and> (\<exists>v a b. events (update_led_state (hw\<lparr>gpio_pin_set_dt := w\<rparr>) cfg s) =
            events s @
            [Gpio_pin_get (stat1_gpio cfg), Gpio_pin_get (stat2_gpio cfg),
             Gpio_pin_set (led_gpio cfg) v,
             Log LOG_DBG ''STAT1=%d, STAT2=%d -> LED=%d'' [a, b, v]])
       \<and> filter is_error_log (events (update_led_state (hw\<lparr>gpio_pin_set_dt := w\<rparr>) cfg s)) =
           filter is_error_log (events s)"
proof -
  have same: "update_led_state (hw\<lparr>gpio_pin_set_dt := w\<rparr>) cfg s = update_led_state hw cfg s"
    by (simp add: update_led_state_def call_defs Let_def)
  show ?thesis unfolding same using assms
    by (simp add: update_led_state_events Let_def)
qed

theorem update_led_state_ignores_write_status_witness:
  "update_led_state (good_board 1 1 (- 5)) board_cfg boot_state =
     update_led_state (good_board 1 1 0) board_cfg boot_state
   \<and> events (update_led_state (good_board 1 1 (- 5)) board_cfg boot_state) =
     [Gpio_pin_get (stat1_gpio board_cfg), Gpio_pin_get (stat2_gpio board_cfg),
      Gpio_pin_set (led_gpio board_cfg) 1,
      Log LOG_DBG ''STAT1=%d, STAT2=%d -> LED=%d'' [1, 1, 1]]"
proof -
  have "(good_board 1 1 0)\<lparr>gpio_pin_set_dt := (\<lambda>h spec v. - 5)\<rparr> = good_board 1 1 (- 5)"
    by (simp add: good_board_def stateless_platform_def)
  then show ?thesis
    using update_led_state_ignores_write_status
      [of "good_board 1 1 0" boot_state board_cfg "\<lambda>h spec v. - 5"]
    by (simp add: board_defs update_led_state_events)
qed

text \<open>
  Claim C9. When all eight steps succeed and a read of the startup re-evaluation is
  negative, initialization still returns 0; after the registration calls it makes the
  two reads, the error diagnostic of the re-evaluation and the informational
  diagnostic, and it writes no pin.
\<close>

theorem init_startup_read_error:
  assumes "\<forall>i<length (init_steps cfg). 0 \<le> sint (step_result hw (events s) (init_steps cfg) i)"
    and "stat1 = gpio_pin_get_dt hw
           (events s @ map step_call (init_steps cfg) @ registration_calls cfg)
           (stat1_gpio cfg)"
    and "stat2 = gpio_pin_get_dt hw
           (events s @ map step_call (init_steps cfg) @ registration_calls cfg @
              [Gpio_pin_get (stat1_gpio cfg)])
           (stat2_gpio cfg)"
    and "sint stat1 < 0 \<or> sint stat2 < 0"
  shows "fst (indicator_led_init hw cfg s) = 0
       \<and> events (snd (indicator_led_init hw cfg s)) =
           events s @ map step_call (init_steps cfg) @ registration_calls cfg @
           [Gpio_pin_get (stat1_gpio cfg), Gpio_pin_get (stat2_gpio cfg),
            Log LOG_ERR ''Failed to read STAT pins'' [],
            Log LOG_INF ''Indicator LED initialized'' []]
       \<and> pin_writes spec (events (snd (indicator_led_init hw cfg s))) = pin_writes spec (events s)"
proof -
  have zero: "fst (indicator_led_init hw cfg s) = 0"
    using assms(1) by (simp add: init_zero_iff run_steps_None_iff)
  have ev: "events (snd (indicator_led_init hw cfg s)) =
      events s @ map step_call (init_steps cfg) @ registration_calls cfg @
      [Gpio_pin_get (stat1_gpio cfg), Gpio_pin_get (stat2_gpio cfg),
       Log LOG_ERR ''Failed to read STAT pins'' [],
       Log LOG_INF ''Indicator LED initialized'' []]"
    using assms(2-4) by (auto simp: init_success_events [OF zero] update_led_state_events)
  show ?thesis unfolding ev using zero
    by (simp add: pin_writes_append pin_writes_step_calls pin_writes_registration_calls)
qed

theorem init_startup_read_error_witness:
  "fst (indicator_led_init (good_board (- 5) 1 0) board_cfg boot_state) = 0
   \<and> pin_writes (led_gpio board_cfg)
       (events (snd (indicator_led_init (good_board (- 5) 1 0) board_cfg boot_state))) = []"
proof -
  have ok: "\<forall>i<length (init_steps board_cfg).
      0 \<le> sint (step_result (good_board (- 5) 1 0) (events boot_state) (init_steps board_cfg) i)"
    by (simp add: init_steps_def All_less_Suc2 step_result_0 step_result_Suc board_defs)
  have neg: "sint (- 5 :: c_int) < 0 \<or> sint (1 :: c_int) < 0" by simp
  have r1: "- 5 = gpio_pin_get_dt (good_board (- 5) 1 0)
      (events boot_state @ map step_call (init_steps board_cfg) @ registration_calls board_cfg)
      (stat1_gpio board_cfg)"
    by (simp add: board_defs)
  have r2: "1 = gpio_pin_get_dt (good_board (- 5) 1 0)
      (events boot_state @ map step_call (init_steps board_cfg) @ registration_calls board_cfg @
         [Gpio_pin_get (stat1_gpio board_cfg)])
      (stat2_gpio board_cfg)"
    by (simp add: board_defs)
  note run = init_startup_read_error [OF ok r1 r2 neg, of "led_gpio board_cfg"]
  from run have zero: "fst (indicator_led_init (good_board (- 5) 1 0) board_cfg boot_state) = 0"
    by blast
  from run have "pin_writes (led_gpio board_cfg)
      (events (snd (indicator_led_init (good_board (- 5) 1 0) board_cfg boot_state))) =
      pin_writes (led_gpio board_cfg) (events boot_state)"
    by blast
  then show ?thesis using zero by (simp add: boot_state_def)
qed

text \<open>
  Claim C10. After a successful initialization the STAT1 block holds the STAT1
  handler and the STAT2 block the STAT2 handler, and the data block holds the
  configuration given to initialization. In any later state with that data block, the
  port firing either block calls that block's callback with the block's own address.
  Either callback, whatever its \<^verbatim>\<open>port\<close> and \<^verbatim>\<open>pins\<close>, then performs one
  re-evaluation on that configuration: it reads STAT1 and STAT2 once, and either logs
  the read error or writes 1 to the LED when both reads are 1 and 0 otherwise, and
  logs the levels. Both callbacks end in the same state, and the data block is
  unchanged.
\<close>

theorem edge_callbacks_equivalent:
  assumes "fst (indicator_led_init hw0 cfg s0) = 0"
    and "data s = data (snd (indicator_led_init hw0 cfg s0))"
    and "stat1 = gpio_pin_get_dt hw (events s) (stat1_gpio cfg)"
    and "stat2 = gpio_pin_get_dt hw (events s @ [Gpio_pin_get (stat1_gpio cfg)]) (stat2_gpio cfg)"
  shows "fire_callback hw prt1 Ref_stat1_cb pins1 s = stat1_gpio_callback hw prt1 Ref_stat1_cb pins1 s
       \<and> fire_callback hw prt2 Ref_stat2_cb pins2 s = stat2_gpio_callback hw prt2 Ref_stat2_cb pins2 s
       \<and> stat1_gpio_callback hw prt1 Ref_stat1_cb pins1 s = Some (update_led_state hw cfg s)
       \<and> stat2_gpio_callback hw prt2 Ref_stat2_cb pins2 s = Some (update_led_state hw cfg s)
       \<and> events (update_led_state hw cfg s) =
           events s @ [Gpio_pin_get (stat1_gpio cfg), Gpio_pin_get (stat2_gpio cfg)] @
           (if sint stat1 < 0 \<or> sint stat2 < 0
            then [Log LOG_ERR ''Failed to read STAT pins'' []]
            else [Gpio_pin_set (led_gpio cfg) (if stat1 = 1 \<and> stat2 = 1 then 1 else 0),
                  Log LOG_DBG ''STAT1=%d, STAT2=%d -> LED=%d''
                    [stat1, stat2, if stat1 = 1 \<and> stat2 = 1 then 1 else 0]])
       \<and> data (update_led_state hw cfg s) = data s"
proof -
  have dat: "data s =
     (data s0)\<lparr>config := cfg,
        stat1_cb := \<lparr>handler = Some Handler_stat1, pin_mask = BIT (pin (stat1_gpio cfg))\<rparr>,
        stat2_cb := \<lparr>handler = Some Handler_stat2, pin_mask = BIT (pin (stat2_gpio cfg))\<rparr>\<rparr>"
    using assms(1,2) by (simp add: init_success_data)
  have c1: "stat1_gpio_callback hw prt1 Ref_stat1_cb pins1 s = Some (update_led_state hw cfg s)"
    by (simp add: stat1_gpio_callback_def CONTAINER_OF_def dat)
  have c2: "stat2_gpio_callback hw prt2 Ref_stat2_cb pins2 s = Some (update_led_state hw cfg s)"
    by (simp add: stat2_gpio_callback_def CONTAINER_OF_def dat)
  have f1: "fire_callback hw prt1 Ref_stat1_cb pins1 s =
      stat1_gpio_callback hw prt1 Ref_stat1_cb pins1 s"
    by (simp add: fire_callback_def cb_block_def call_handler_def dat)
  have f2: "fire_callback hw prt2 Ref_stat2_cb pins2 s =
      stat2_gpio_callback hw prt2 Ref_stat2_cb pins2 s"
    by (simp add: fire_callback_def cb_block_def call_handler_def dat)
  have ev: "events (update_led_state hw cfg s) =
      events s @ [Gpio_pin_get (stat1_gpio cfg), Gpio_pin_get (stat2_gpio cfg)] @
      (if sint stat1 < 0 \<or> sint stat2 < 0
       then [Log LOG_ERR ''Failed to read STAT pins'' []]
       else [Gpio_pin_set (led_gpio cfg) (if stat1 = 1 \<and> stat2 = 1 then 1 else 0),
             Log LOG_DBG ''STAT1=%d, STAT2=%d -> LED=%d''
               [stat1, stat2, if stat1 = 1 \<and> stat2 = 1 then 1 else 0]])"
    using assms(3,4) by (simp add: update_led_state_events Let_def)
  show ?thesis using c1 c2 f1 f2 ev by (simp add: update_led_state_data)
qed

theorem edge_callbacks_equivalent_witness:
  "fire_callback (good_board 1 0 0) (Device ''gpio0'') Ref_stat1_cb 16
      (snd (indicator_led_init (good_board 1 1 0) board_cfg boot_state)) =
   Some (update_led_state (good_board 1 0 0) board_cfg
      (snd (indicator_led_init (good_board 1 1 0) board_cfg boot_state)))
   \<and> stat2_gpio_callback (good_board 1 0 0) (Device ''gpio1'') Ref_stat2_cb 32
      (snd (indicator_led_init (good_board 1 1 0) board_cfg boot_state)) =
   Some (update_led_state (good_board 1 0 0) board_cfg
      (snd (indicator_led_init (good_board 1 1 0) board_cfg boot_state)))
   \<and> pin_writes (led_gpio board_cfg) (events (update_led_state (good_board 1 0 0) board_cfg
      (snd (indicator_led_init (good_board 1 1 0) board_cfg boot_state)))) = [1, 0]"
proof -
  let ?s = "snd (indicator_led_init (good_board 1 1 0) board_cfg boot_state)"
  have zero: "fst (indicator_led_init (good_board 1 1 0) board_cfg boot_state) = 0"
    by (simp add: init_eval)
  have r1: "1 = gpio_pin_get_dt (good_board 1 0 0) (events ?s) (stat1_gpio board_cfg)"
    by (simp add: good_board_def stateless_platform_def)
  have r2: "0 = gpio_pin_get_dt (good_board 1 0 0)
      (events ?s @ [Gpio_pin_get (stat1_gpio board_cfg)]) (stat2_gpio board_cfg)"
    by (simp add: good_board_def stateless_platform_def board_cfg_def)
  note cb = edge_callbacks_equivalent [OF zero refl r1 r2,
      of "Device ''gpio0''" 16 "Device ''gpio1''" 32]
  have before: "pin_writes (led_gpio board_cfg) (events ?s) = [1]"
    by (simp add: init_eval)
  from cb have ev: "events (update_led_state (good_board 1 0 0) board_cfg ?s) =
      events ?s @ [Gpio_pin_get (stat1_gpio board_cfg), Gpio_pin_get (stat2_gpio board_cfg),
        Gpio_pin_set (led_gpio board_cfg) 0,
        Log LOG_DBG ''STAT1=%d, STAT2=%d -> LED=%d'' [1, 0, 0]]"
    by simp
  have "pin_writes (led_gpio board_cfg) (events (update_led_state (good_board 1 0 0) board_cfg ?s)) =
      [1, 0]"
    unfolding ev by (simp add: pin_writes_append before)
  with cb show ?thesis by simp
qed

end
